theory Spec2Isabelle
  imports Complex_Main
begin

section \<open>Emulated Roku: discovery protocol and API server (src/src/index.ts)\<close>

text \<open>
  The theory embeds the two classes of \<^verbatim>\<open>src/src/index.ts\<close>:
  \<^verbatim>\<open>EmulatedRokuDiscoveryProtocol\<close> (the SSDP engine) and \<^verbatim>\<open>EmulatedRokuServer\<close>
  (the HTTP command surface with its access guard).  Text is a \<open>string\<close>, one element per
  character of the decoded payload; numbers of the script are reals extended by \<open>NaN\<close>;
  every raise is a value.
\<close>

subsection \<open>Strings of the script\<close>

definition startsWith :: "string \<Rightarrow> string \<Rightarrow> bool" where
  "startsWith s p = (take (length p) s = p)"

text \<open>\<^verbatim>\<open>s.indexOf(p)\<close>: the first position at which \<open>p\<close> occurs; \<open>None\<close> stands for \<^verbatim>\<open>-1\<close>.\<close>

fun indexOf_from :: "nat \<Rightarrow> string \<Rightarrow> string \<Rightarrow> nat option" where
  "indexOf_from i [] p = (if p = [] then Some i else None)"
| "indexOf_from i (c # cs) p =
     (if startsWith (c # cs) p then Some i else indexOf_from (Suc i) cs p)"

definition indexOf :: "string \<Rightarrow> string \<Rightarrow> nat option" where
  "indexOf s p = indexOf_from 0 s p"

text \<open>\<^verbatim>\<open>s.includes(p)\<close>.\<close>

definition str_includes :: "string \<Rightarrow> string \<Rightarrow> bool" where
  "str_includes s p = (indexOf s p \<noteq> None)"

text \<open>White space and line terminators of the script among the first 256 code points.\<close>

definition isWhiteSpace :: "char \<Rightarrow> bool" where
  "isWhiteSpace c = (of_char c \<in> {9, 10, 11, 12, 13, 32, 160 :: nat})"

definition trim :: "string \<Rightarrow> string" where
  "trim s = rev (dropWhile isWhiteSpace (rev (dropWhile isWhiteSpace s)))"

text \<open>\<^verbatim>\<open>s[i]\<close>: a one-character string, \<^verbatim>\<open>undefined\<close> (here \<open>None\<close>) out of range.\<close>

definition charAt :: "string \<Rightarrow> nat \<Rightarrow> string option" where
  "charAt s i = (if i < length s then Some [s ! i] else None)"

definition isDigit :: "char \<Rightarrow> bool" where
  "isDigit c = (48 \<le> (of_char c :: nat) \<and> (of_char c :: nat) \<le> 57)"

definition digitVal :: "char \<Rightarrow> nat" where
  "digitVal c = of_char c - 48"

fun digitsVal :: "nat \<Rightarrow> string \<Rightarrow> nat" where
  "digitsVal acc [] = acc"
| "digitsVal acc (c # cs) = digitsVal (10 * acc + digitVal c) cs"

text \<open>Number to text, for an integral non-negative number (ports, the TTL).\<close>

function decimal :: "nat \<Rightarrow> string" where
  "decimal n = (if n < 10 then [''0123456789'' ! n]
                else decimal (n div 10) @ [''0123456789'' ! (n mod 10)])"
  by pat_completeness auto
termination
  by (relation "measure id") auto

text \<open>\<^verbatim>\<open>s.split(c)\<close> for a one-character separator.\<close>

fun split_on :: "char \<Rightarrow> string \<Rightarrow> string list" where
  "split_on c [] = [[]]"
| "split_on c (x # xs) =
     (if x = c then [] # split_on c xs
      else (case split_on c xs of [] \<Rightarrow> [[x]] | p # ps \<Rightarrow> (x # p) # ps))"

subsection \<open>Numbers of the script\<close>

datatype number = Num real | NaN

fun num_add :: "number \<Rightarrow> number \<Rightarrow> number" where
  "num_add (Num a) (Num b) = Num (a + b)"
| "num_add _ _ = NaN"

fun num_mul :: "number \<Rightarrow> number \<Rightarrow> number" where
  "num_mul (Num a) (Num b) = Num (a * b)"
| "num_mul _ _ = NaN"

text \<open>The remainder \<^verbatim>\<open>a % b\<close>: the sign follows the dividend, a zero divisor gives \<open>NaN\<close>.\<close>

definition trunc :: "real \<Rightarrow> int" where
  "trunc x = (if 0 \<le> x then \<lfloor>x\<rfloor> else \<lceil>x\<rceil>)"

fun num_rem :: "number \<Rightarrow> number \<Rightarrow> number" where
  "num_rem (Num a) (Num b) =
     (if b = 0 then NaN else Num (a - b * of_int (trunc (a / b))))"
| "num_rem _ _ = NaN"

text \<open>
  \<^verbatim>\<open>parseInt(x, 10)\<close>: \<^verbatim>\<open>undefined\<close> is first turned into the text \<^verbatim>\<open>undefined\<close>; leading
  white space is skipped, one sign is read, then the longest run of decimal digits; no digit
  gives \<open>NaN\<close>.
\<close>

definition parseInt :: "string option \<Rightarrow> number" where
  "parseInt x =
     (let s = (case x of None \<Rightarrow> ''undefined'' | Some t \<Rightarrow> t);
          t = dropWhile isWhiteSpace s;
          neg = (t \<noteq> [] \<and> hd t = CHR ''-'');
          u = (if t \<noteq> [] \<and> (hd t = CHR ''-'' \<or> hd t = CHR ''+'') then tl t else t);
          ds = takeWhile isDigit u
      in if ds = [] then NaN
         else Num ((if neg then - 1 else 1) * real (digitsVal 0 ds)))"

subsection \<open>Multicast/SSDP constants\<close>

definition MULTICAST_TTL :: nat where "MULTICAST_TTL = 300"
definition MULTICAST_TTL_MS :: nat where "MULTICAST_TTL_MS = MULTICAST_TTL * 1000"
definition MULTICAST_MAX_DELAY :: nat where "MULTICAST_MAX_DELAY = 5"
definition MULTICAST_GROUP :: string where "MULTICAST_GROUP = ''239.255.255.250''"
definition MULTICAST_PORT :: nat where "MULTICAST_PORT = 1900"

subsection \<open>The discovery request\<close>

text \<open>
  \<^verbatim>\<open>datagramReceived\<close> is embedded in three parts: the test at its head, the delay it
  computes, and the closure it hands to \<^verbatim>\<open>setTimeout\<close>.  The test, on the trimmed text
  of the datagram, returns early when
  \<^verbatim>\<open>!data.startsWith("M-SEARCH * HTTP/1.1") ||
  !(data.includes("ST: ssdp:all") || data.includes("ST: roku:ecp"))\<close>;
  \<open>is_discovery_request\<close> is the negation of that condition.
\<close>

definition is_discovery_request :: "string \<Rightarrow> bool" where
  "is_discovery_request data =
     (\<not> (\<not> startsWith data ''M-SEARCH * HTTP/1.1'' \<or>
         \<not> (str_includes data ''ST: ssdp:all'' \<or> str_includes data ''ST: roku:ecp'')))"

text \<open>
  The delay, in milliseconds; \<open>r\<close> is the value that \<^verbatim>\<open>Math.random()\<close> returns, a number
  in \<open>[0, 1)\<close>.  With \<^verbatim>\<open>mxValue = data.indexOf("MX:")\<close> found, the source computes
  \<^verbatim>\<open>parseInt(data[mxValue + 4], 10) % (MULTICAST_MAX_DELAY + 1)\<close> and then
  \<^verbatim>\<open>Math.random() * (mxDelay + 1) * 1000\<close>; otherwise
  \<^verbatim>\<open>Math.random() * (MULTICAST_MAX_DELAY + 1) * 1000\<close>.
\<close>

definition reply_delay :: "string \<Rightarrow> real \<Rightarrow> number" where
  "reply_delay data r =
     (case indexOf data ''MX:'' of
        Some mxValue \<Rightarrow>
          (let mxDelay = num_rem (parseInt (charAt data (mxValue + 4)))
                                 (Num (real (MULTICAST_MAX_DELAY + 1)))
           in num_mul (num_mul (Num r) (num_add mxDelay (Num 1))) (Num 1000))
      | None \<Rightarrow>
          num_mul (num_mul (Num r) (Num (real (MULTICAST_MAX_DELAY + 1)))) (Num 1000))"

subsection \<open>The datagram socket\<close>

text \<open>
  The part of Node's \<^verbatim>\<open>dgram.Socket\<close> that the protocol uses.  A socket has a handle from
  its creation until \<^verbatim>\<open>close()\<close>; \<^verbatim>\<open>send\<close> and \<^verbatim>\<open>close\<close> on a socket without handle
  throw \<^verbatim>\<open>ERR_SOCKET_DGRAM_NOT_RUNNING\<close>.  \<open>sent\<close> lists the datagrams handed to the
  network, oldest first.
\<close>

datatype error = ERR_SOCKET_DGRAM_NOT_RUNNING | HTTPForbidden | HTTPNotFound
  | HTTPMethodNotAllowed | ValueError | KeyError | TypeError | OSError

record RemoteInfo =
  address :: string
  port :: nat

record datagram =
  dg_data :: string
  dg_port :: nat
  dg_address :: string

record socket =
  running :: bool
  sent :: "datagram list"

definition socket_send ::
  "string \<Rightarrow> nat \<Rightarrow> nat \<Rightarrow> nat \<Rightarrow> string \<Rightarrow> socket \<Rightarrow> error option \<times> socket" where
  "socket_send msg offset len prt addr s =
     (if running s
      then (None, s\<lparr>sent := sent s @
              [\<lparr>dg_data = take len (drop offset msg), dg_port = prt, dg_address = addr\<rparr>]\<rparr>)
      else (Some ERR_SOCKET_DGRAM_NOT_RUNNING, s))"

definition socket_close :: "socket \<Rightarrow> error option \<times> socket" where
  "socket_close s =
     (if running s then (None, s\<lparr>running := False\<rparr>)
      else (Some ERR_SOCKET_DGRAM_NOT_RUNNING, s))"

subsection \<open>EmulatedRokuDiscoveryProtocol\<close>

definition nl :: string where
  "nl = [CHR 0x0A]"

text \<open>
  The two messages that the constructor precomputes, as functions of the advertised
  address, the advertised port and the usn.  The response interpolates
  \<^verbatim>\<open>${this.rokuUsn}\<close> into its last header; the last header of the announcement is
  written \<^verbatim>\<open>USN: uuid:roku:ecp:{usn}\<close>, without interpolation.  The lines after the
  first keep the six blanks that the template literal has in front of them.
\<close>

definition ssdpResponse_of :: "string \<Rightarrow> nat \<Rightarrow> string \<Rightarrow> string" where
  "ssdpResponse_of advIp advPort usn =
     ''HTTP/1.1 200 OK'' @ nl @
     ''      Cache-Control: max-age = '' @ decimal MULTICAST_TTL @ nl @
     ''      ST: roku:ecp'' @ nl @
     ''      SERVER: Roku/12.0.0 UPnP/1.0 Roku/12.0.0'' @ nl @
     ''      Ext: '' @ nl @
     ''      Location: http://'' @ advIp @ '':'' @ decimal advPort @ ''/'' @ nl @
     ''      USN: uuid:roku:ecp:'' @ usn @ nl @
     ''    ''"

definition notifyBroadcast_of :: "string \<Rightarrow> nat \<Rightarrow> string \<Rightarrow> string" where
  "notifyBroadcast_of advIp advPort usn =
     ''NOTIFY * HTTP/1.1'' @ nl @
     ''      HOST: '' @ MULTICAST_GROUP @ '':'' @ decimal MULTICAST_PORT @ nl @
     ''      Cache-Control: max-age = '' @ decimal MULTICAST_TTL @ nl @
     ''      NT: upnp:rootdevice'' @ nl @
     ''      NTS: ssdp:alive'' @ nl @
     ''      Location: http://'' @ advIp @ '':'' @ decimal advPort @ ''/'' @ nl @
     ''      USN: uuid:roku:ecp:{usn}'' @ nl @
     ''    ''"

text \<open>
  The fields of the class.  \<open>notifyInterval\<close> holds the handle that \<^verbatim>\<open>setInterval\<close>
  returned, \<open>None\<close> for \<^verbatim>\<open>undefined\<close>.
\<close>

record protocol =
  hostIp :: string
  rokuUsn :: string
  advertiseIp :: string
  advertisePort :: nat
  dgramSocket :: socket
  ssdpResponse :: string
  notifyBroadcast :: string
  notifyInterval :: "nat option"
  connected :: bool

text \<open>
  The protocol object together with the timers of the event loop: \<open>intervals\<close> are the
  handles of the armed repeating timers, \<open>fresh\<close> is the next handle, \<open>timeouts\<close> are the
  replies registered with \<^verbatim>\<open>setTimeout\<close> that have not fired, each with its delay and the
  \<^verbatim>\<open>rinfo\<close> its closure holds.
\<close>

record world =
  proto :: protocol
  intervals :: "nat list"
  fresh :: nat
  timeouts :: "(number \<times> RemoteInfo) list"

definition EmulatedRokuDiscoveryProtocol ::
  "string \<Rightarrow> string \<Rightarrow> string \<Rightarrow> nat \<Rightarrow> socket \<Rightarrow> protocol" where
  "EmulatedRokuDiscoveryProtocol hIp usn advIp advPort sock =
     \<lparr>hostIp = hIp, rokuUsn = usn, advertiseIp = advIp, advertisePort = advPort,
      dgramSocket = sock,
      ssdpResponse = ssdpResponse_of advIp advPort usn,
      notifyBroadcast = notifyBroadcast_of advIp advPort usn,
      notifyInterval = None, connected = False\<rparr>"

definition new_socket :: socket where
  "new_socket = \<lparr>running = True, sent = []\<rparr>"

definition new_world :: "string \<Rightarrow> string \<Rightarrow> string \<Rightarrow> nat \<Rightarrow> world" where
  "new_world hIp usn advIp advPort =
     \<lparr>proto = EmulatedRokuDiscoveryProtocol hIp usn advIp advPort new_socket,
      intervals = [], fresh = 0, timeouts = []\<rparr>"

definition clearInterval :: "nat \<Rightarrow> world \<Rightarrow> world" where
  "clearInterval h w = w\<lparr>intervals := removeAll h (intervals w)\<rparr>"

definition setInterval :: "world \<Rightarrow> nat \<times> world" where
  "setInterval w = (fresh w, w\<lparr>intervals := fresh w # intervals w, fresh := Suc (fresh w)\<rparr>)"

definition with_socket :: "world \<Rightarrow> error option \<times> socket \<Rightarrow> error option \<times> world" where
  "with_socket w r = (fst r, w\<lparr>proto := (proto w)\<lparr>dgramSocket := snd r\<rparr>\<rparr>)"

definition multicastNotify :: "world \<Rightarrow> error option \<times> world" where
  "multicastNotify w =
     with_socket w
       (socket_send (notifyBroadcast (proto w)) 0 (length (notifyBroadcast (proto w)))
          MULTICAST_PORT MULTICAST_GROUP (dgramSocket (proto w)))"

definition connectionMade :: "world \<Rightarrow> error option \<times> world" where
  "connectionMade w =
     (let w1 = (case notifyInterval (proto w) of Some h \<Rightarrow> clearInterval h w | None \<Rightarrow> w);
          w2 = w1\<lparr>proto := (proto w1)\<lparr>connected := True\<rparr>\<rparr>;
          (e, w3) = multicastNotify w2
      in case e of
           Some x \<Rightarrow> (Some x, w3)
         | None \<Rightarrow>
             (let (h, w4) = setInterval w3
              in (None, w4\<lparr>proto := (proto w4)\<lparr>notifyInterval := Some h\<rparr>\<rparr>)))"

definition close :: "world \<Rightarrow> error option \<times> world" where
  "close w =
     (let w1 = w\<lparr>proto := (proto w)\<lparr>connected := False\<rparr>\<rparr>;
          w2 = (case notifyInterval (proto w1) of
                  Some h \<Rightarrow>
                    (let w' = clearInterval h w1
                     in w'\<lparr>proto := (proto w')\<lparr>notifyInterval := None\<rparr>\<rparr>)
                | None \<Rightarrow> w1)
      in with_socket w2 (socket_close (dgramSocket (proto w2))))"

definition connectionLost :: "world \<Rightarrow> error option \<times> world" where
  "connectionLost w = close w"

text \<open>
  The closure handed to \<^verbatim>\<open>setTimeout\<close>, run when the timer fires: it returns at once
  when \<^verbatim>\<open>!this.connected\<close> and otherwise sends \<^verbatim>\<open>this.ssdpResponse\<close> to
  \<^verbatim>\<open>rinfo.port\<close>, \<^verbatim>\<open>rinfo.address\<close>.
\<close>

definition reply :: "RemoteInfo \<Rightarrow> world \<Rightarrow> error option \<times> world" where
  "reply rinfo w =
     (if \<not> connected (proto w) then (None, w)
      else with_socket w
             (socket_send (ssdpResponse (proto w)) 0 (length (ssdpResponse (proto w)))
                (port rinfo) (address rinfo) (dgramSocket (proto w))))"

text \<open>
  \<open>msg\<close> is the text that \<^verbatim>\<open>msg.toString('utf-8')\<close> gives, \<open>r\<close> the random draw.  A
  request that passes the test registers its reply with the timers of the event loop.
\<close>

definition datagramReceived :: "string \<Rightarrow> RemoteInfo \<Rightarrow> real \<Rightarrow> world \<Rightarrow> error option \<times> world" where
  "datagramReceived msg rinfo r w =
     (let data = trim msg
      in if \<not> is_discovery_request data then (None, w)
         else (None, w\<lparr>timeouts := timeouts w @ [(reply_delay data r, rinfo)]\<rparr>))"

subsection \<open>The event loop\<close>

text \<open>
  What can happen to a protocol object: the socket's \<^verbatim>\<open>listening\<close>, \<^verbatim>\<open>message\<close> and
  \<^verbatim>\<open>close\<close> events (the first two are only delivered by a socket that has its handle), a
  call of \<^verbatim>\<open>close()\<close> by the owner (\<open>Stop\<close>), a tick of an armed repeating timer, and the
  firing of a pending reply timer.  A callback that throws leaves the assignments it made.
\<close>

datatype event = Listening | Message string RemoteInfo real | Closed | Stop
  | Tick nat | Fire nat

definition remove_nth :: "nat \<Rightarrow> 'a list \<Rightarrow> 'a list" where
  "remove_nth k xs = take k xs @ drop (Suc k) xs"

fun step :: "event \<Rightarrow> world \<Rightarrow> error option \<times> world" where
  "step Listening w =
     (if running (dgramSocket (proto w)) then connectionMade w else (None, w))"
| "step (Message msg rinfo r) w =
     (if running (dgramSocket (proto w)) then datagramReceived msg rinfo r w else (None, w))"
| "step Closed w = connectionLost w"
| "step Stop w = close w"
| "step (Tick h) w = (if h \<in> set (intervals w) then multicastNotify w else (None, w))"
| "step (Fire k) w =
     (if k < length (timeouts w)
      then reply (snd (timeouts w ! k)) (w\<lparr>timeouts := remove_nth k (timeouts w)\<rparr>)
      else (None, w))"

fun run :: "event list \<Rightarrow> world \<Rightarrow> world" where
  "run [] w = w"
| "run (ev # evs) w = run evs (snd (step ev w))"

definition transmitted :: "world \<Rightarrow> datagram list" where
  "transmitted w = sent (dgramSocket (proto w))"

subsection \<open>Response templates\<close>

definition APP_PLACEHOLDER_ICON :: string where
  "APP_PLACEHOLDER_ICON =
    [CHR 0x89, CHR 0x50, CHR 0x4E, CHR 0x47, CHR 0x0D, CHR 0x0A, CHR 0x1A, CHR 0x0A,
     CHR 0x00, CHR 0x00, CHR 0x00, CHR 0x0D, CHR 0x49, CHR 0x48, CHR 0x44, CHR 0x52,
     CHR 0x00, CHR 0x00, CHR 0x00, CHR 0x01, CHR 0x00, CHR 0x00, CHR 0x00, CHR 0x01,
     CHR 0x08, CHR 0x04, CHR 0x00, CHR 0x00, CHR 0x00, CHR 0xB5, CHR 0x1C, CHR 0x0C,
     CHR 0x02, CHR 0x00, CHR 0x00, CHR 0x00, CHR 0x0B, CHR 0x49, CHR 0x44, CHR 0x41,
     CHR 0x54, CHR 0x78, CHR 0xDA, CHR 0x63, CHR 0xFC, CHR 0x5F, CHR 0x0F, CHR 0x00,
     CHR 0x02, CHR 0x83, CHR 0x01, CHR 0x80, CHR 0x34, CHR 0xC3, CHR 0xDA, CHR 0xA8,
     CHR 0x00, CHR 0x00, CHR 0x00, CHR 0x00, CHR 0x49, CHR 0x45, CHR 0x4E, CHR 0x44,
     CHR 0xAE, CHR 0x42, CHR 0x60, CHR 0x82]"

definition formatInfoTemplate :: "string \<Rightarrow> string \<Rightarrow> string" where
  \<open>formatInfoTemplate uuid usn =
     ''<?xml version="1.0" encoding="UTF-8" ?>'' @ nl @
     ''<root xmlns="urn:schemas-upnp-org:device-1-0">'' @ nl @
     ''  <specVersion>'' @ nl @
     ''    <major>1</major>'' @ nl @
     ''    <minor>0</minor>'' @ nl @
     ''  </specVersion>'' @ nl @
     ''  <device>'' @ nl @
     ''  <deviceType>urn:roku-com:device:player:1-0</deviceType>'' @ nl @
     ''  <friendlyName>'' @ usn @ ''</friendlyName>'' @ nl @
     ''  <manufacturer>Roku</manufacturer>'' @ nl @
     ''  <manufacturerURL>http://www.roku.com/</manufacturerURL>'' @ nl @
     ''  <modelDescription>Emulated Roku</modelDescription>'' @ nl @
     ''  <modelName>Roku 4</modelName>'' @ nl @
     ''  <modelNumber>4400x</modelNumber>'' @ nl @
     ''  <modelURL>http://www.roku.com/</modelURL>'' @ nl @
     ''  <serialNumber>'' @ usn @ ''</serialNumber>'' @ nl @
     ''  <UDN>uuid:'' @ uuid @ ''</UDN>'' @ nl @
     ''  </device>'' @ nl @
     ''</root>'' @ nl\<close>

definition formatDeviceInfoTemplate :: "string \<Rightarrow> string \<Rightarrow> string" where
  "formatDeviceInfoTemplate uuid usn =
     ''<device-info>'' @ nl @
     ''  <udn>'' @ uuid @ ''</udn>'' @ nl @
     ''  <serial-number>'' @ usn @ ''</serial-number>'' @ nl @
     ''  <device-id>'' @ usn @ ''</device-id>'' @ nl @
     ''  <vendor-name>Roku</vendor-name>'' @ nl @
     ''  <model-number>4400X</model-number>'' @ nl @
     ''  <model-name>Roku 4</model-name>'' @ nl @
     ''  <model-region>US</model-region>'' @ nl @
     ''  <supports-ethernet>true</supports-ethernet>'' @ nl @
     ''  <wifi-mac>00:00:00:00:00:00</wifi-mac>'' @ nl @
     ''  <ethernet-mac>00:00:00:00:00:00</ethernet-mac>'' @ nl @
     ''  <network-type>ethernet</network-type>'' @ nl @
     ''  <user-device-name>'' @ usn @ ''</user-device-name>'' @ nl @
     ''  <software-version>7.5.0</software-version>'' @ nl @
     ''  <software-build>09021</software-build>'' @ nl @
     ''  <secure-device>true</secure-device>'' @ nl @
     ''  <language>en</language>'' @ nl @
     ''  <country>US</country>'' @ nl @
     ''  <locale>en_US</locale>'' @ nl @
     ''  <time-zone>US/Pacific</time-zone>'' @ nl @
     ''  <time-zone-offset>-480</time-zone-offset>'' @ nl @
     ''  <power-mode>PowerOn</power-mode>'' @ nl @
     ''  <supports-suspend>false</supports-suspend>'' @ nl @
     ''  <supports-find-remote>false</supports-find-remote>'' @ nl @
     ''  <supports-audio-guide>false</supports-audio-guide>'' @ nl @
     ''  <developer-enabled>false</developer-enabled>'' @ nl @
     ''  <keyed-developer-id>0000000000000000000000000000000000000000</keyed-developer-id>'' @ nl @
     ''  <search-enabled>false</search-enabled>'' @ nl @
     ''  <voice-search-enabled>false</voice-search-enabled>'' @ nl @
     ''  <notifications-enabled>false</notifications-enabled>'' @ nl @
     ''  <notifications-first-use>false</notifications-first-use>'' @ nl @
     ''  <supports-private-listening>false</supports-private-listening>'' @ nl @
     ''  <headphones-connected>false</headphones-connected>'' @ nl @
     ''</device-info>'' @ nl"

definition APPS_TEMPLATE :: string where
  \<open>APPS_TEMPLATE =
     ''<apps>'' @ nl @
     ''  <app id="1" version="1.0.0">Emulated App 1</app>'' @ nl @
     ''  <app id="2" version="1.0.0">Emulated App 2</app>'' @ nl @
     ''  <app id="3" version="1.0.0">Emulated App 3</app>'' @ nl @
     ''  <app id="4" version="1.0.0">Emulated App 4</app>'' @ nl @
     ''  <app id="5" version="1.0.0">Emulated App 5</app>'' @ nl @
     ''  <app id="6" version="1.0.0">Emulated App 6</app>'' @ nl @
     ''  <app id="7" version="1.0.0">Emulated App 7</app>'' @ nl @
     ''  <app id="8" version="1.0.0">Emulated App 8</app>'' @ nl @
     ''  <app id="9" version="1.0.0">Emulated App 9</app>'' @ nl @
     ''  <app id="10" version="1.0.0">Emulated App 10</app>'' @ nl @
     ''</apps>'' @ nl\<close>

definition ACTIVE_APP_TEMPLATE :: string where
  "ACTIVE_APP_TEMPLATE =
     ''<active-app>'' @ nl @
     ''  <app>Roku</app>'' @ nl @
     ''</active-app>'' @ nl"

subsection \<open>EmulatedRokuCommandHandler\<close>

text \<open>A value handed to a call: \<^verbatim>\<open>undefined\<close>, a string or a number.\<close>

datatype jsval = JUndefined | JString string | JNumber nat

text \<open>
  The four operations that the class declares.  \<open>'h\<close> is whatever the operations of the
  configured handler act on; the base class's operations have empty bodies.
\<close>

record 'h EmulatedRokuCommandHandler =
  onKeydown :: "jsval \<Rightarrow> jsval \<Rightarrow> 'h \<Rightarrow> 'h"
  onKeyup :: "jsval \<Rightarrow> jsval \<Rightarrow> 'h \<Rightarrow> 'h"
  onKeypress :: "jsval \<Rightarrow> jsval \<Rightarrow> 'h \<Rightarrow> 'h"
  launch :: "jsval \<Rightarrow> jsval \<Rightarrow> 'h \<Rightarrow> 'h"

definition base_handler :: "'h EmulatedRokuCommandHandler" where
  "base_handler =
     \<lparr>onKeydown = (\<lambda>rokuUsn key s. s), onKeyup = (\<lambda>rokuUsn key s. s),
      onKeypress = (\<lambda>rokuUsn key s. s), launch = (\<lambda>rokuUsn appId s. s)\<rparr>"

text \<open>
  \<^verbatim>\<open>handler.<name>\<close> as something to call: the operation of that name, \<open>None\<close> when the
  class declares no operation of that name (the \<^verbatim>\<open>KEY_...\<close> members are strings).
\<close>

definition handler_member ::
  "'h EmulatedRokuCommandHandler \<Rightarrow> string \<Rightarrow> (jsval \<Rightarrow> jsval \<Rightarrow> 'h \<Rightarrow> 'h) option" where
  "handler_member h name =
     (if name = ''onKeydown'' then Some (onKeydown h)
      else if name = ''onKeyup'' then Some (onKeyup h)
      else if name = ''onKeypress'' then Some (onKeypress h)
      else if name = ''launch'' then Some (launch h)
      else None)"

subsection \<open>EmulatedRokuServer\<close>

datatype AppRunner = AppRunner

record 'h server =
  handler :: "'h EmulatedRokuCommandHandler"
  rokuUsn :: string
  hostIp :: string
  listenPort :: nat
  advertiseIp :: string
  advertisePort :: nat
  bindMulticast :: bool
  allowed_hosts :: "string list"
  roku_uuid :: string
  roku_info :: string
  device_info :: string
  discovery_proto :: "world option"
  api_runner :: "AppRunner option"

text \<open>
  The constructor.  \<open>uuid5\<close> and \<open>oid\<close> are the function of the \<^verbatim>\<open>uuid\<close> package and
  its member \<^verbatim>\<open>uuid5.OID\<close>, \<open>platform\<close> is the value of \<^verbatim>\<open>process.platform\<close>; an
  argument that the caller leaves out is \<open>None\<close>.
\<close>

definition EmulatedRokuServer ::
  "('n \<Rightarrow> string \<Rightarrow> string) \<Rightarrow> 'n \<Rightarrow> string \<Rightarrow> 'h EmulatedRokuCommandHandler \<Rightarrow>
   string \<Rightarrow> string \<Rightarrow> nat \<Rightarrow> string option \<Rightarrow> nat option \<Rightarrow> bool option \<Rightarrow>
   'h server" where
  "EmulatedRokuServer uuid5 oid platform h usn hIp lPort advIp advPort bindMc =
     (let aIp = (case advIp of None \<Rightarrow> hIp | Some a \<Rightarrow> a);
          aPort = (case advPort of None \<Rightarrow> lPort | Some p \<Rightarrow> p);
          uuid = uuid5 oid usn
      in \<lparr>handler = h, rokuUsn = usn, hostIp = hIp, listenPort = lPort,
          advertiseIp = aIp, advertisePort = aPort,
          bindMulticast = (case bindMc of None \<Rightarrow> platform = ''win32'' | Some b \<Rightarrow> b),
          allowed_hosts = [hIp, hIp @ '':'' @ decimal lPort, aIp, aIp @ '':'' @ decimal aPort],
          roku_uuid = uuid,
          roku_info = formatInfoTemplate uuid usn,
          device_info = formatDeviceInfoTemplate uuid usn,
          discovery_proto = None, api_runner = None\<rparr>)"

text \<open>
  \<^verbatim>\<open>this.<name>\<close> for a name under which the object stores a string or a number;
  \<^verbatim>\<open>undefined\<close> for a name that nothing was stored under.
\<close>

definition server_member :: "'h server \<Rightarrow> string \<Rightarrow> jsval" where
  "server_member srv name =
     (if name = ''rokuUsn'' then JString (rokuUsn srv)
      else if name = ''hostIp'' then JString (hostIp srv)
      else if name = ''listenPort'' then JNumber (listenPort srv)
      else if name = ''advertiseIp'' then JString (advertiseIp srv)
      else if name = ''advertisePort'' then JNumber (advertisePort srv)
      else if name = ''roku_uuid'' then JString (roku_uuid srv)
      else if name = ''roku_info'' then JString (roku_info srv)
      else if name = ''device_info'' then JString (device_info srv)
      else JUndefined)"

subsection \<open>Requests and responses\<close>

text \<open>
  What the guard and the handlers read of a request: \<open>host\<close> is the \<^verbatim>\<open>Host\<close> header,
  \<open>remote\<close> the address of the peer (\<open>None\<close> when the transport has none), \<open>match_info\<close>
  the path parameters that route resolution extracted.
\<close>

record request =
  http_method :: string
  path :: string
  host :: string
  remote :: "string option"
  match_info :: "(string \<times> string) list"

record response =
  status :: nat
  body :: string
  headers :: "(string \<times> string) list"

definition Response :: "string \<Rightarrow> (string \<times> string) list \<Rightarrow> response" where
  "Response b hs = \<lparr>status = 200, body = b, headers = hs\<rparr>"

type_synonym 'h handler_fn = "request \<Rightarrow> 'h \<Rightarrow> (error + response) \<times> 'h"

definition roku_root_handler :: "'h server \<Rightarrow> 'h handler_fn" where
  "roku_root_handler srv request s =
     (Inr (Response (roku_info srv) [(''Content-Type'', ''text/xml'')]), s)"

definition roku_input_handler :: "'h server \<Rightarrow> 'h handler_fn" where
  "roku_input_handler srv request s = (Inr (Response [] []), s)"

text \<open>
  The four command handlers, for instance
  \<^verbatim>\<open>key = request.match_info['key']; this.handler.on_keydown(this.roku_usn, key);
  return web.Response()\<close>.
  Each reads its path parameter, looks up the operation and the usn under the names
  written in the body of the method, calls the operation and answers with an empty
  response.  Calling a member that does not exist raises.
\<close>

definition call_handler ::
  "'h server \<Rightarrow> string \<Rightarrow> string \<Rightarrow> string \<Rightarrow> 'h handler_fn" where
  "call_handler srv param operation usn_name request s =
     (case map_of (match_info request) param of
        None \<Rightarrow> (Inl KeyError, s)
      | Some v \<Rightarrow>
          (case handler_member (handler srv) operation of
             None \<Rightarrow> (Inl TypeError, s)
           | Some f \<Rightarrow> (Inr (Response [] []), f (server_member srv usn_name) (JString v) s)))"

definition roku_keydown_handler :: "'h server \<Rightarrow> 'h handler_fn" where
  "roku_keydown_handler srv = call_handler srv ''key'' ''on_keydown'' ''roku_usn''"

definition roku_keyup_handler :: "'h server \<Rightarrow> 'h handler_fn" where
  "roku_keyup_handler srv = call_handler srv ''key'' ''on_keyup'' ''roku_usn''"

definition roku_keypress_handler :: "'h server \<Rightarrow> 'h handler_fn" where
  "roku_keypress_handler srv = call_handler srv ''key'' ''on_keypress'' ''roku_usn''"

definition roku_launch_handler :: "'h server \<Rightarrow> 'h handler_fn" where
  "roku_launch_handler srv = call_handler srv ''id'' ''launch'' ''roku_usn''"

definition roku_apps_handler :: "'h server \<Rightarrow> 'h handler_fn" where
  "roku_apps_handler srv request s =
     (Inr (Response APPS_TEMPLATE [(''Content-Type'', ''text/xml'')]), s)"

definition roku_active_app_handler :: "'h server \<Rightarrow> 'h handler_fn" where
  "roku_active_app_handler srv request s =
     (Inr (Response ACTIVE_APP_TEMPLATE [(''Content-Type'', ''text/xml'')]), s)"

definition roku_app_icon_handler :: "'h server \<Rightarrow> 'h handler_fn" where
  "roku_app_icon_handler srv request s =
     (Inr (Response APP_PLACEHOLDER_ICON [(''Content-Type'', ''image/png'')]), s)"

definition roku_search_handler :: "'h server \<Rightarrow> 'h handler_fn" where
  "roku_search_handler srv request s = (Inr (Response [] []), s)"

definition roku_info_handler :: "'h server \<Rightarrow> 'h handler_fn" where
  "roku_info_handler srv request s =
     (Inr (Response (device_info srv) [(''Content-Type'', ''text/xml'')]), s)"

subsection \<open>The access guard\<close>

text \<open>
  The middleware \<^verbatim>\<open>_check_remote_and_host_ip\<close>: it raises \<^verbatim>\<open>web.HTTPForbidden\<close> when
  \<^verbatim>\<open>request.host not in this.allowed_hosts\<close>, then when
  \<^verbatim>\<open>not ip_address(request.remote).is_private\<close>, and otherwise returns
  \<^verbatim>\<open>await handler(request)\<close>.  The address library is not part of the source and is
  taken as two parameters: \<open>ip_address\<close> parses the remote address and raises (\<open>Inl\<close>) on
  what is not an address, \<open>is_private\<close> is the property of the parsed address.  \<open>hdl\<close> is
  the routed handler; the warnings that the guard logs are left out.
\<close>

definition check_remote_and_host_ip ::
  "(string option \<Rightarrow> error + 'a) \<Rightarrow> ('a \<Rightarrow> bool) \<Rightarrow> 'h server \<Rightarrow> request \<Rightarrow>
   'h handler_fn \<Rightarrow> 'h \<Rightarrow> (error + response) \<times> 'h" where
  "check_remote_and_host_ip ip_address is_private srv request hdl s =
     (if host request \<notin> set (allowed_hosts srv) then (Inl HTTPForbidden, s)
      else (case ip_address (remote request) of
              Inl e \<Rightarrow> (Inl e, s)
            | Inr a \<Rightarrow>
                if \<not> is_private a then (Inl HTTPForbidden, s)
                else hdl request s))"

subsection \<open>Routes\<close>

text \<open>
  A route's path is either literal or a literal prefix followed by one \<^verbatim>\<open>{name}\<close> segment,
  which matches a non-empty run of characters other than \<^verbatim>\<open>/\<close>, \<^verbatim>\<open>{\<close> and \<^verbatim>\<open>}\<close>.
\<close>

datatype pattern = Plain string | Dynamic string string

fun match_pattern :: "pattern \<Rightarrow> string \<Rightarrow> (string \<times> string) list option" where
  "match_pattern (Plain p) s = (if s = p then Some [] else None)"
| "match_pattern (Dynamic pre var) s =
     (let v = drop (length pre) s
      in if startsWith s pre \<and> v \<noteq> [] \<and>
            list_all (\<lambda>c. c \<noteq> CHR ''/'' \<and> c \<noteq> CHR 0x7B \<and> c \<noteq> CHR 0x7D) v
         then Some [(var, v)] else None)"

type_synonym 'h route = "string \<times> pattern \<times> 'h handler_fn"

definition setup_app :: "'h server \<Rightarrow> 'h route list" where
  "setup_app srv =
     [(''GET'', Plain ''/'', roku_root_handler srv),
      (''POST'', Dynamic ''/keydown/'' ''key'', roku_keydown_handler srv),
      (''POST'', Dynamic ''/keyup/'' ''key'', roku_keyup_handler srv),
      (''POST'', Dynamic ''/keypress/'' ''key'', roku_keypress_handler srv),
      (''POST'', Dynamic ''/launch/'' ''id'', roku_launch_handler srv),
      (''POST'', Plain ''/input'', roku_input_handler srv),
      (''POST'', Plain ''/search'', roku_search_handler srv),
      (''GET'', Plain ''/query/apps'', roku_apps_handler srv),
      (''GET'', Dynamic ''/query/icon/'' ''id'', roku_app_icon_handler srv),
      (''GET'', Plain ''/query/active-app'', roku_active_app_handler srv),
      (''GET'', Plain ''/query/device-info'', roku_info_handler srv)]"

text \<open>
  Route resolution: the first route whose path and method match; a request that matches
  no route is answered by the framework's own handler, which raises.
\<close>

fun resolve :: "'h route list \<Rightarrow> request \<Rightarrow> bool \<Rightarrow> 'h handler_fn" where
  "resolve [] request seen =
     (\<lambda>rq s. (Inl (if seen then HTTPMethodNotAllowed else HTTPNotFound), s))"
| "resolve ((m, pat, h) # rs) request seen =
     (case match_pattern pat (path request) of
        None \<Rightarrow> resolve rs request seen
      | Some mi \<Rightarrow>
          if m = http_method request then (\<lambda>rq s. h (rq\<lparr>match_info := mi\<rparr>) s)
          else resolve rs request True)"

text \<open>One request through the application: the guard around the resolved handler.\<close>

definition app_handle ::
  "(string option \<Rightarrow> error + 'a) \<Rightarrow> ('a \<Rightarrow> bool) \<Rightarrow> 'h server \<Rightarrow> 'h handler_fn" where
  "app_handle ip_address is_private srv request s =
     check_remote_and_host_ip ip_address is_private srv request
       (resolve (setup_app srv) request False) s"

subsection \<open>Starting and closing the server\<close>

text \<open>
  \<^verbatim>\<open>start()\<close> depends on the operating system: the HTTP endpoint or the datagram socket may
  fail to bind; when both succeed, \<open>Started w\<close> carries the protocol object that the
  datagram endpoint was created with.
\<close>

datatype startup = Started world | TcpFailed | UdpFailed

definition start :: "startup \<Rightarrow> 'h server \<Rightarrow> error option \<times> 'h server" where
  "start su srv =
     (let srv1 = srv\<lparr>api_runner := Some AppRunner\<rparr>
      in case su of
           TcpFailed \<Rightarrow> (Some OSError, srv1)
         | UdpFailed \<Rightarrow> (Some OSError, srv1)
         | Started w \<Rightarrow> (None, srv1\<lparr>discovery_proto := Some w\<rparr>))"

definition server_close :: "'h server \<Rightarrow> error option \<times> 'h server" where
  "server_close srv =
     (let r = (case discovery_proto srv of
                 Some w \<Rightarrow>
                   (case close w of
                      (Some e, w') \<Rightarrow> (Some e, srv\<lparr>discovery_proto := Some w'\<rparr>)
                    | (None, w') \<Rightarrow> (None, srv\<lparr>discovery_proto := None\<rparr>))
               | None \<Rightarrow> (None, srv))
      in case fst r of
           Some e \<Rightarrow> r
         | None \<Rightarrow>
             (case api_runner (snd r) of
                Some a \<Rightarrow> (None, (snd r)\<lparr>api_runner := None\<rparr>)
              | None \<Rightarrow> (None, snd r)))"

text \<open>
  The operations on a server after its construction: a request, \<^verbatim>\<open>start()\<close>,
  \<^verbatim>\<open>close()\<close>, and an event of the event loop on its protocol object.
\<close>

datatype server_op = OpRequest request | OpStart startup | OpClose | OpEvent event

fun server_step ::
  "(string option \<Rightarrow> error + 'a) \<Rightarrow> ('a \<Rightarrow> bool) \<Rightarrow> server_op \<Rightarrow> 'h server \<times> 'h \<Rightarrow>
   'h server \<times> 'h" where
  "server_step ipa isp (OpRequest rq) (srv, s) = (srv, snd (app_handle ipa isp srv rq s))"
| "server_step ipa isp (OpStart su) (srv, s) = (snd (start su srv), s)"
| "server_step ipa isp OpClose (srv, s) = (snd (server_close srv), s)"
| "server_step ipa isp (OpEvent ev) (srv, s) =
     (srv\<lparr>discovery_proto := map_option (\<lambda>w. snd (step ev w)) (discovery_proto srv)\<rparr>, s)"

fun server_run ::
  "(string option \<Rightarrow> error + 'a) \<Rightarrow> ('a \<Rightarrow> bool) \<Rightarrow> server_op list \<Rightarrow> 'h server \<times> 'h \<Rightarrow>
   'h server \<times> 'h" where
  "server_run ipa isp [] st = st"
| "server_run ipa isp (op # ops) st = server_run ipa isp ops (server_step ipa isp op st)"

subsection \<open>Concrete collaborators\<close>

text \<open>
  A handler that records every call it receives, and an address library for dotted-quad
  text: four decimal fields of at most three digits and value at most 255; private are
  10/8, 172.16/12, 192.168/16 and the loopback net 127/8.  \<open>concat_uuid5\<close> stands in
  for the \<^verbatim>\<open>uuid\<close> package.  They serve to run the server on concrete requests.
\<close>

datatype call = KeyDown jsval jsval | KeyUp jsval jsval | KeyPress jsval jsval
  | Launch jsval jsval

definition recording_handler :: "call list EmulatedRokuCommandHandler" where
  "recording_handler =
     \<lparr>onKeydown = (\<lambda>u k s. s @ [KeyDown u k]), onKeyup = (\<lambda>u k s. s @ [KeyUp u k]),
      onKeypress = (\<lambda>u k s. s @ [KeyPress u k]), launch = (\<lambda>u a s. s @ [Launch u a])\<rparr>"

definition parse_octet :: "string \<Rightarrow> nat option" where
  "parse_octet t =
     (if t \<noteq> [] \<and> length t \<le> 3 \<and> list_all isDigit t \<and> digitsVal 0 t \<le> 255
      then Some (digitsVal 0 t) else None)"

definition ipv4_address :: "string option \<Rightarrow> error + nat list" where
  "ipv4_address x =
     (case x of
        None \<Rightarrow> Inl ValueError
      | Some t \<Rightarrow>
          (let os = map parse_octet (split_on CHR ''.'' t)
           in if length os = 4 \<and> list_all (\<lambda>v. v \<noteq> None) os
              then Inr (map the os) else Inl ValueError))"

definition ipv4_is_private :: "nat list \<Rightarrow> bool" where
  "ipv4_is_private a =
     (case a of
        [a0, a1, a2, a3] \<Rightarrow>
          a0 = 10 \<or> (a0 = 172 \<and> 16 \<le> a1 \<and> a1 \<le> 31) \<or> (a0 = 192 \<and> a1 = 168) \<or> a0 = 127
      | _ \<Rightarrow> False)"

definition concat_uuid5 :: "string \<Rightarrow> string \<Rightarrow> string" where
  "concat_uuid5 ns name = ns @ ''/'' @ name"

definition namespace_oid :: string where
  "namespace_oid = ''6ba7b812-9dad-11d1-80b4-00c04fd430c8''"

subsection \<open>The spec's reading of a discovery request\<close>

text \<open>
  Two notions that the spec uses and the source does not compute, written after the spec's
  words to compare the code against them.  The search targets of a request are the values
  of its header lines named \<^verbatim>\<open>ST\<close>; the declared maximum-wait hint is the whole decimal
  integer that follows \<^verbatim>\<open>MX:\<close>.
\<close>

definition spec_search_targets :: "string \<Rightarrow> string list" where
  "spec_search_targets data =
     map (\<lambda>l. trim (drop 3 l)) (filter (\<lambda>l. startsWith l ''ST:'') (split_on CHR 0x0A data))"


subsection \<open>Invariants of the event loop\<close>

text \<open>
  \<open>armed_ok\<close>: every armed repeating timer is the one whose handle the protocol holds.
  \<open>stopped\<close>: the state that \<^verbatim>\<open>close()\<close> leaves.
\<close>

definition armed_ok :: "world \<Rightarrow> bool" where
  "armed_ok w = (set (intervals w) \<subseteq> set_option (notifyInterval (proto w)))"

definition stopped :: "world \<Rightarrow> bool" where
  "stopped w =
     (\<not> connected (proto w) \<and> intervals w = [] \<and> \<not> running (dgramSocket (proto w)))"

subsection \<open>A concrete device\<close>

text \<open>
  The device of the spec's end-to-end properties (\<^verbatim>\<open>usn = ABC123\<close>, host 192.168.1.10,
  port 8060), a requester on the local network, and the text of a search request with the
  given header lines.
\<close>

definition msearch :: "string list \<Rightarrow> string" where
  "msearch hs = ''M-SEARCH * HTTP/1.1'' @ concat (map (\<lambda>h. [CHR 0x0D, CHR 0x0A] @ h) hs)"

definition requester :: RemoteInfo where
  "requester = \<lparr>address = ''192.168.1.20'', port = 50000\<rparr>"

definition device :: world where
  "device = new_world ''192.168.1.10'' ''ABC123'' ''192.168.1.10'' 8060"

definition roku :: "call list server" where
  "roku = EmulatedRokuServer concat_uuid5 namespace_oid ''linux'' recording_handler ''ABC123''
            ''192.168.1.10'' 8060 None None None"

definition post :: "string \<Rightarrow> request" where
  "post p = \<lparr>http_method = ''POST'', path = p, host = ''192.168.1.10:8060'',
             remote = Some ''192.168.1.20'', match_info = []\<rparr>"

section \<open>Properties\<close>

subsection \<open>Strings and numbers\<close>

lemma startsWith_iff: "startsWith s p \<longleftrightarrow> (\<exists>v. s = p @ v)"
  unfolding startsWith_def by (metis append_eq_conv_conj append_take_drop_id)

lemma indexOf_from_Some:
  "indexOf_from k s p = Some i \<Longrightarrow> k \<le> i \<and> (\<exists>u v. s = u @ p @ v \<and> length u = i - k)"
proof (induction k s p rule: indexOf_from.induct)
  case (1 i p)
  then show ?case by (auto split: if_splits)
next
  case (2 k c cs p)
  show ?case
  proof (cases "startsWith (c # cs) p")
    case True
    with 2 have "i = k" by simp
    moreover from True have "c # cs = [] @ p @ drop (length p) (c # cs)"
      unfolding startsWith_def by (metis append_Nil append_take_drop_id)
    ultimately show ?thesis by (metis diff_self_eq_0 le_refl list.size(3))
  next
    case False
    with 2 have "indexOf_from (Suc k) cs p = Some i" by simp
    with 2 False obtain u v where "Suc k \<le> i" "cs = u @ p @ v" "length u = i - Suc k"
      by blast
    then have "c # cs = (c # u) @ p @ v" "length (c # u) = i - k" by auto
    with \<open>Suc k \<le> i\<close> show ?thesis by (metis Suc_leD)
  qed
qed

lemma indexOf_from_None: "indexOf_from k s p = None \<Longrightarrow> \<not> (\<exists>u v. s = u @ p @ v)"
proof (induction k s p rule: indexOf_from.induct)
  case (1 i p)
  then show ?case by (auto split: if_splits)
next
  case (2 k c cs p)
  then have ns: "\<not> startsWith (c # cs) p" and "indexOf_from (Suc k) cs p = None"
    by (auto split: if_splits)
  with 2 have ih: "\<not> (\<exists>u v. cs = u @ p @ v)" by simp
  show ?case
  proof
    assume "\<exists>u v. c # cs = u @ p @ v"
    then obtain u v where uv: "c # cs = u @ p @ v" by blast
    show False
    proof (cases u)
      case Nil
      with uv have "startsWith (c # cs) p" by (simp add: startsWith_def)
      with ns show False by simp
    next
      case (Cons a u')
      with uv have "cs = u' @ p @ v" by simp
      with ih show False by blast
    qed
  qed
qed

text \<open>\<open>str_includes\<close> is the substring test.\<close>

lemma str_includes_iff: "str_includes s p \<longleftrightarrow> (\<exists>u v. s = u @ p @ v)"
  unfolding str_includes_def indexOf_def
  using indexOf_from_Some indexOf_from_None
  by (metis not_None_eq)

lemma charAt_in: "i < length s \<Longrightarrow> charAt s i = Some [s ! i]"
  by (simp add: charAt_def)

lemma charAt_out: "length s \<le> i \<Longrightarrow> charAt s i = None"
  by (simp add: charAt_def)

text \<open>\<^verbatim>\<open>parseInt\<close> of one character is its digit value, or \<open>NaN\<close>.\<close>

lemma parseInt_char:
  "parseInt (Some [c]) = (if isDigit c then Num (real (digitVal c)) else NaN)"
  by (auto simp: parseInt_def Let_def isDigit_def isWhiteSpace_def)

lemma parseInt_undefined: "parseInt None = NaN"
  by (simp add: parseInt_def isDigit_def isWhiteSpace_def)


subsection \<open>The reply delay\<close>



lemma reply_delay_not_digit:
  assumes "indexOf data ''MX:'' = Some i"
    and "length data \<le> i + 4 \<or> \<not> isDigit (data ! (i + 4))"
  shows "reply_delay data r = NaN"
proof -
  have "parseInt (charAt data (i + 4)) = NaN"
  proof (cases "length data \<le> i + 4")
    case True
    then show ?thesis by (simp add: charAt_out parseInt_undefined)
  next
    case False
    with assms(2) show ?thesis by (simp add: charAt_in parseInt_char)
  qed
  with assms(1) show ?thesis by (simp add: reply_delay_def Let_def)
qed

subsection \<open>Evaluation on the concrete device\<close>

lemmas text_defs = msearch_def is_discovery_request_def str_includes_def indexOf_def
  startsWith_def trim_def isWhiteSpace_def

lemmas run_defs = device_def requester_def new_world_def new_socket_def
  EmulatedRokuDiscoveryProtocol_def connectionMade_def connectionLost_def close_def
  multicastNotify_def datagramReceived_def reply_def with_socket_def clearInterval_def
  setInterval_def socket_send_def socket_close_def remove_nth_def transmitted_def Let_def

lemma device_idle: "timeouts device = []"
  by (simp add: device_def new_world_def)

lemma request_roku:
  "trim (msearch [''ST: roku:ecp'']) = msearch [''ST: roku:ecp'']"
  "is_discovery_request (msearch [''ST: roku:ecp''])"
  "indexOf (msearch [''ST: roku:ecp'']) ''MX:'' = None"
  "reply_delay (msearch [''ST: roku:ecp'']) (1/2) = Num 3000"
  by (simp_all add: text_defs reply_delay_def MULTICAST_MAX_DELAY_def)

lemma request_rootdevice:
  "trim (msearch [''ST: upnp:rootdevice'']) = msearch [''ST: upnp:rootdevice'']"
  "\<not> str_includes (msearch [''ST: upnp:rootdevice'']) ''ST: ssdp:all''"
  "\<not> str_includes (msearch [''ST: upnp:rootdevice'']) ''ST: roku:ecp''"
  by (simp_all add: text_defs)


lemma request_mx_nospace:
  "trim (msearch [''ST: roku:ecp'', ''MX:3'']) = msearch [''ST: roku:ecp'', ''MX:3'']"
  "is_discovery_request (msearch [''ST: roku:ecp'', ''MX:3''])"
  "indexOf (msearch [''ST: roku:ecp'', ''MX:3'']) ''MX:'' = Some 35"
  "length (msearch [''ST: roku:ecp'', ''MX:3'']) \<le> 35 + 4"
  by (simp_all add: text_defs)

subsection \<open>The discovery request\<close>

text \<open>
  C5 (amended).  A datagram is answered if and only if its trimmed text starts with
  \<^verbatim>\<open>M-SEARCH * HTTP/1.1\<close> and contains the text \<^verbatim>\<open>ST: ssdp:all\<close> or the text
  \<^verbatim>\<open>ST: roku:ecp\<close> somewhere: then exactly one reply timer is registered for the
  requester.  Every other datagram leaves the protocol and its timers as they were.  No
  datagram raises.
\<close>

theorem discovery_request_iff:
  "fst (datagramReceived msg rinfo r w) = None \<and>
   (startsWith (trim msg) ''M-SEARCH * HTTP/1.1'' \<and>
      ((\<exists>u v. trim msg = u @ ''ST: ssdp:all'' @ v) \<or>
       (\<exists>u v. trim msg = u @ ''ST: roku:ecp'' @ v))
    \<longrightarrow> snd (datagramReceived msg rinfo r w) =
          w\<lparr>timeouts := timeouts w @ [(reply_delay (trim msg) r, rinfo)]\<rparr>) \<and>
   (\<not> (startsWith (trim msg) ''M-SEARCH * HTTP/1.1'' \<and>
      ((\<exists>u v. trim msg = u @ ''ST: ssdp:all'' @ v) \<or>
       (\<exists>u v. trim msg = u @ ''ST: roku:ecp'' @ v)))
    \<longrightarrow> snd (datagramReceived msg rinfo r w) = w)"
  by (simp add: datagramReceived_def is_discovery_request_def str_includes_iff Let_def)

theorem discovery_request_iff_witness:
  "snd (datagramReceived (msearch [''ST: roku:ecp'']) requester (1/2) device) =
     device\<lparr>timeouts := [(Num 3000, requester)]\<rparr> \<and>
   snd (datagramReceived (msearch [''ST: upnp:rootdevice'']) requester (1/2) device) = device"
proof -
  have a: "startsWith (trim (msearch [''ST: roku:ecp''])) ''M-SEARCH * HTTP/1.1''"
    by (simp add: text_defs)
  have b: "\<exists>u v. trim (msearch [''ST: roku:ecp'']) = u @ ''ST: roku:ecp'' @ v"
    unfolding str_includes_iff [symmetric] by (simp add: text_defs)
  have c: "\<not> (\<exists>u v. trim (msearch [''ST: upnp:rootdevice'']) = u @ ''ST: ssdp:all'' @ v)"
    unfolding str_includes_iff [symmetric] by (simp add: request_rootdevice)
  have d: "\<not> (\<exists>u v. trim (msearch [''ST: upnp:rootdevice'']) = u @ ''ST: roku:ecp'' @ v)"
    unfolding str_includes_iff [symmetric] by (simp add: request_rootdevice)
  have e: "reply_delay (trim (msearch [''ST: roku:ecp''])) (1/2) = Num 3000"
    by (simp add: request_roku)
  from discovery_request_iff [of "msearch [''ST: roku:ecp'']" requester "1/2" device]
       discovery_request_iff [of "msearch [''ST: upnp:rootdevice'']" requester "1/2" device]
       a b c d e device_idle
  show ?thesis by simp
qed

text \<open>
  C5 as stated fails: a request whose only search target is \<^verbatim>\<open>roku:ecp2\<close>, which equals
  neither \<^verbatim>\<open>ssdp:all\<close> nor \<^verbatim>\<open>roku:ecp\<close>, is answered.
\<close>

theorem search_target_counterexample:
  "spec_search_targets (trim (msearch [''ST: roku:ecp2''])) = [''roku:ecp2''] \<and>
   ''roku:ecp2'' \<noteq> ''ssdp:all'' \<and> ''roku:ecp2'' \<noteq> ''roku:ecp'' \<and>
   snd (datagramReceived (msearch [''ST: roku:ecp2'']) requester (1/2) device) =
     device\<lparr>timeouts := [(Num 3000, requester)]\<rparr>"
  by (simp add: spec_search_targets_def text_defs datagramReceived_def reply_delay_def
        MULTICAST_MAX_DELAY_def device_idle)

text \<open>
  C10.  For a discovery request whose text contains \<^verbatim>\<open>MX:\<close>, if the character four
  positions after the start of the first \<^verbatim>\<open>MX:\<close> is missing or is not a decimal digit,
  the delay is \<open>NaN\<close>, and the reply timer is registered with that delay.
\<close>

theorem hint_not_digit_gives_NaN:
  assumes "is_discovery_request (trim msg)"
    and "indexOf (trim msg) ''MX:'' = Some i"
    and "length (trim msg) \<le> i + 4 \<or> \<not> isDigit (trim msg ! (i + 4))"
  shows "reply_delay (trim msg) r = NaN \<and>
         snd (datagramReceived msg rinfo r w) = w\<lparr>timeouts := timeouts w @ [(NaN, rinfo)]\<rparr>"
  using assms reply_delay_not_digit [of "trim msg" i r]
  by (simp add: datagramReceived_def Let_def)

theorem hint_not_digit_gives_NaN_witness:
  "is_discovery_request (trim (msearch [''ST: roku:ecp'', ''MX:3''])) \<and>
   indexOf (trim (msearch [''ST: roku:ecp'', ''MX:3''])) ''MX:'' = Some 35 \<and>
   length (trim (msearch [''ST: roku:ecp'', ''MX:3''])) \<le> 35 + 4 \<and>
   reply_delay (trim (msearch [''ST: roku:ecp'', ''MX:3''])) (1/2) = NaN \<and>
   snd (datagramReceived (msearch [''ST: roku:ecp'', ''MX:3'']) requester (1/2) device) =
     device\<lparr>timeouts := [(NaN, requester)]\<rparr>"
proof -
  have a: "is_discovery_request (trim (msearch [''ST: roku:ecp'', ''MX:3'']))"
    by (simp add: request_mx_nospace)
  have b: "indexOf (trim (msearch [''ST: roku:ecp'', ''MX:3''])) ''MX:'' = Some 35"
    by (simp add: request_mx_nospace)
  have c: "length (trim (msearch [''ST: roku:ecp'', ''MX:3''])) \<le> 35 + 4"
    by (simp only: request_mx_nospace)
  from hint_not_digit_gives_NaN [OF a b, of "1/2" requester device] a b c device_idle
  show ?thesis by simp
qed





subsection \<open>The event loop after \<^verbatim>\<open>close()\<close>\<close>

lemma removeAll_only: "set xs \<subseteq> {x} \<Longrightarrow> removeAll x xs = []"
  by (induction xs) auto

lemma armed_ok_new: "armed_ok (new_world h u a p)"
  by (simp add: armed_ok_def new_world_def)

lemma step_armed_ok: "armed_ok w \<Longrightarrow> armed_ok (snd (step ev w))"
  by (cases ev)
     (auto simp: armed_ok_def connectionMade_def connectionLost_def close_def
        multicastNotify_def datagramReceived_def reply_def with_socket_def clearInterval_def
        setInterval_def socket_send_def socket_close_def Let_def
        split: option.splits if_splits prod.splits)

lemma run_armed_ok: "armed_ok w \<Longrightarrow> armed_ok (run evs w)"
  by (induction evs arbitrary: w) (simp_all add: step_armed_ok)

lemma close_stopped: "armed_ok w \<Longrightarrow> stopped (snd (close w))"
  by (auto simp: removeAll_only armed_ok_def stopped_def close_def with_socket_def
        clearInterval_def socket_close_def Let_def split: option.splits)

text \<open>In a stopped state no event transmits, and the state stays stopped.\<close>

lemma step_stopped:
  "stopped w \<Longrightarrow> stopped (snd (step ev w)) \<and> transmitted (snd (step ev w)) = transmitted w"
  by (cases ev)
     (auto simp: stopped_def transmitted_def connectionLost_def close_def reply_def
        with_socket_def clearInterval_def socket_close_def Let_def split: option.splits)

lemma run_stopped: "stopped w \<Longrightarrow> transmitted (run evs w) = transmitted w"
proof (induction evs arbitrary: w)
  case Nil
  then show ?case by simp
next
  case (Cons ev evs)
  from Cons.prems have "stopped (snd (step ev w))"
    and "transmitted (snd (step ev w)) = transmitted w"
    using step_stopped by blast+
  with Cons.IH show ?case by simp
qed

lemma run_append: "run (xs @ ys) w = run ys (run xs w)"
  by (induction xs arbitrary: w) simp_all

lemma reply_suppressed: "\<not> connected (proto w) \<Longrightarrow> reply rinfo w = (None, w)"
  by (simp add: reply_def)

text \<open>
  C2.  Whatever happened to a protocol object before, once \<^verbatim>\<open>close()\<close> has run (called
  by the owner, \<open>Stop\<close>, or by the socket's \<^verbatim>\<open>close\<close> event, \<open>Closed\<close>) nothing that
  happens afterwards transmits a datagram: in particular a reply timer registered before
  and fired after sends nothing.  In any state with \<open>connected = false\<close>, a firing reply
  timer transmits nothing.
\<close>

theorem no_send_after_stop:
  "transmitted (run (evs1 @ Stop # evs2) (new_world h u a p)) =
     transmitted (run (evs1 @ [Stop]) (new_world h u a p)) \<and>
   transmitted (run (evs1 @ Closed # evs2) (new_world h u a p)) =
     transmitted (run (evs1 @ [Closed]) (new_world h u a p)) \<and>
   (\<not> connected (proto w) \<longrightarrow> transmitted (snd (step (Fire k) w)) = transmitted w)"
proof -
  let ?w = "run evs1 (new_world h u a p)"
  have ok: "armed_ok ?w" by (simp add: run_armed_ok armed_ok_new)
  then have s: "stopped (snd (close ?w))" by (rule close_stopped)
  have "run (evs1 @ Stop # evs2) (new_world h u a p) = run evs2 (snd (close ?w))"
    by (simp add: run_append)
  moreover have "run (evs1 @ [Stop]) (new_world h u a p) = snd (close ?w)"
    by (simp add: run_append)
  moreover have "run (evs1 @ Closed # evs2) (new_world h u a p) = run evs2 (snd (close ?w))"
    by (simp add: run_append connectionLost_def)
  moreover have "run (evs1 @ [Closed]) (new_world h u a p) = snd (close ?w)"
    by (simp add: run_append connectionLost_def)
  moreover have "\<not> connected (proto w) \<longrightarrow>
      transmitted (snd (step (Fire k) w)) = transmitted w"
    by (simp add: reply_def transmitted_def)
  ultimately show ?thesis using run_stopped [OF s] by simp
qed

text \<open>
  The witness: the device starts listening, receives a request, which registers a reply
  timer, and is stopped; the timer fires and nothing is sent beyond the one NOTIFY.
  Without the stop the reply is sent.
\<close>

theorem no_send_after_stop_witness:
  "timeouts (run [Listening, Message (msearch [''ST: roku:ecp'']) requester (1/2)] device) =
     [(Num 3000, requester)] \<and>
   length (transmitted (run ([Listening, Message (msearch [''ST: roku:ecp'']) requester (1/2)]
     @ [Stop]) device)) = 1 \<and>
   transmitted (run ([Listening, Message (msearch [''ST: roku:ecp'']) requester (1/2)]
     @ Stop # [Fire 0]) device) =
   transmitted (run ([Listening, Message (msearch [''ST: roku:ecp'']) requester (1/2)]
     @ [Stop]) device) \<and>
   length (transmitted (run ([Listening, Message (msearch [''ST: roku:ecp'']) requester (1/2)]
     @ [Fire 0]) device)) = 2"
proof -
  have a: "timeouts (run [Listening, Message (msearch [''ST: roku:ecp'']) requester (1/2)] device)
      = [(Num 3000, requester)]"
    by (simp add: run_defs request_roku)
  have b: "length (transmitted (run ([Listening,
      Message (msearch [''ST: roku:ecp'']) requester (1/2)] @ [Stop]) device)) = 1"
    by (simp add: run_defs request_roku)
  have c: "length (transmitted (run ([Listening,
      Message (msearch [''ST: roku:ecp'']) requester (1/2)] @ [Fire 0]) device)) = 2"
    by (simp add: run_defs request_roku)
  from no_send_after_stop [of "[Listening, Message (msearch [''ST: roku:ecp'']) requester (1/2)]"
          "[Fire 0]" "''192.168.1.10''" "''ABC123''" "''192.168.1.10''" 8060 device 0] a b c
  show ?thesis by (simp only: device_def [symmetric])
qed

subsection \<open>Closing twice\<close>

lemma close_closes: "\<not> running (dgramSocket (proto (snd (close w))))"
  by (simp add: close_def with_socket_def socket_close_def Let_def split: option.splits)

lemma close_not_running:
  "\<not> running (dgramSocket (proto w)) \<Longrightarrow> fst (close w) = Some ERR_SOCKET_DGRAM_NOT_RUNNING"
  by (simp add: close_def with_socket_def socket_close_def Let_def clearInterval_def
        split: option.splits)

lemma close_fields:
  "connected (proto (snd (close w))) = False \<and> notifyInterval (proto (snd (close w))) = None"
  by (simp add: close_def with_socket_def socket_close_def Let_def clearInterval_def
        split: option.splits)

lemma server_close_raises:
  assumes "discovery_proto srv = Some w" and "\<not> running (dgramSocket (proto w))"
  shows "fst (server_close srv) = Some ERR_SOCKET_DGRAM_NOT_RUNNING \<and>
         api_runner (snd (server_close srv)) = api_runner srv"
proof -
  from assms(2) have "fst (close w) = Some ERR_SOCKET_DGRAM_NOT_RUNNING"
    by (rule close_not_running)
  then obtain w' where "close w = (Some ERR_SOCKET_DGRAM_NOT_RUNNING, w')"
    by (metis prod.collapse)
  with assms(1) show ?thesis
    by (simp add: server_close_def Let_def)
qed

text \<open>
  C4 (the code departs from the claim).  \<^verbatim>\<open>close()\<close> leaves \<open>connected = false\<close> and no
  timer handle, but it calls \<^verbatim>\<open>dgramSocket.close()\<close> whether or not the socket is still
  open: a second \<^verbatim>\<open>close()\<close>, and the \<^verbatim>\<open>close\<close> event that follows a \<^verbatim>\<open>close()\<close>,
  raise \<^verbatim>\<open>ERR_SOCKET_DGRAM_NOT_RUNNING\<close>.  When the socket's \<^verbatim>\<open>close\<close> event ran first,
  the server's own \<^verbatim>\<open>close()\<close> raises too and leaves the HTTP runner in place.
\<close>

theorem second_close_raises:
  "connected (proto (snd (close w))) = False \<and>
   notifyInterval (proto (snd (close w))) = None \<and>
   fst (close (snd (close w))) = Some ERR_SOCKET_DGRAM_NOT_RUNNING \<and>
   fst (step Closed (snd (step Stop w))) = Some ERR_SOCKET_DGRAM_NOT_RUNNING \<and>
   fst (server_close (fst (server_run ipv4_address ipv4_is_private
          [OpStart (Started device), OpEvent Listening, OpEvent Closed] (roku, [])))) =
     Some ERR_SOCKET_DGRAM_NOT_RUNNING \<and>
   api_runner (snd (server_close (fst (server_run ipv4_address ipv4_is_private
          [OpStart (Started device), OpEvent Listening, OpEvent Closed] (roku, []))))) =
     Some AppRunner"
proof -
  let ?srv = "fst (server_run ipv4_address ipv4_is_private
          [OpStart (Started device), OpEvent Listening, OpEvent Closed] (roku, []))"
  have d: "discovery_proto ?srv = Some (snd (close (snd (step Listening device))))"
    by (simp add: start_def connectionLost_def Let_def)
  have r: "api_runner ?srv = Some AppRunner"
    by (simp add: start_def Let_def)
  from server_close_raises [OF d close_closes] r
  have "fst (server_close ?srv) = Some ERR_SOCKET_DGRAM_NOT_RUNNING"
    and "api_runner (snd (server_close ?srv)) = Some AppRunner"
    by simp_all
  then show ?thesis
    using close_fields [of w] close_not_running [OF close_closes, of w]
    by (simp add: connectionLost_def)
qed

subsection \<open>The two messages\<close>

text \<open>
  C6 (the code departs from the claim).  The discovery response ends its USN header with
  the device's usn; the NOTIFY announcement does not depend on the usn at all: its USN
  header ends with the seven characters \<^verbatim>\<open>{usn}\<close>.
\<close>

theorem notify_usn_not_substituted:
  "notifyBroadcast (EmulatedRokuDiscoveryProtocol h usn a p s) =
     notifyBroadcast (EmulatedRokuDiscoveryProtocol h usn' a p s) \<and>
   notifyBroadcast (proto device) =
     ''NOTIFY * HTTP/1.1'' @ nl @
     ''      HOST: 239.255.255.250:1900'' @ nl @
     ''      Cache-Control: max-age = 300'' @ nl @
     ''      NT: upnp:rootdevice'' @ nl @
     ''      NTS: ssdp:alive'' @ nl @
     ''      Location: http://192.168.1.10:8060/'' @ nl @
     ''      USN: uuid:roku:ecp:{usn}'' @ nl @
     ''    '' \<and>
   \<not> str_includes (notifyBroadcast (proto device)) ''ABC123'' \<and>
   ssdpResponse (proto device) =
     ''HTTP/1.1 200 OK'' @ nl @
     ''      Cache-Control: max-age = 300'' @ nl @
     ''      ST: roku:ecp'' @ nl @
     ''      SERVER: Roku/12.0.0 UPnP/1.0 Roku/12.0.0'' @ nl @
     ''      Ext: '' @ nl @
     ''      Location: http://192.168.1.10:8060/'' @ nl @
     ''      USN: uuid:roku:ecp:ABC123'' @ nl @
     ''    ''"
  by (simp add: run_defs text_defs notifyBroadcast_of_def ssdpResponse_of_def nl_def
        MULTICAST_GROUP_def MULTICAST_PORT_def MULTICAST_TTL_def)


subsection \<open>The server's construction\<close>

lemma allowed_hosts_ctor:
  "allowed_hosts (EmulatedRokuServer uuid5 oid platform h usn hIp lPort advIp advPort bm) =
     [hIp, hIp @ '':'' @ decimal lPort,
      (case advIp of None \<Rightarrow> hIp | Some a \<Rightarrow> a),
      (case advIp of None \<Rightarrow> hIp | Some a \<Rightarrow> a) @ '':'' @
        decimal (case advPort of None \<Rightarrow> lPort | Some p \<Rightarrow> p)]"
  by (simp add: EmulatedRokuServer_def Let_def)









subsection \<open>The access guard\<close>

lemma guard_host:
  "host rq \<notin> set (allowed_hosts srv) \<Longrightarrow>
   check_remote_and_host_ip ipa isp srv rq hdl s = (Inl HTTPForbidden, s)"
  by (simp add: check_remote_and_host_ip_def)



lemma guard_pass:
  "host rq \<in> set (allowed_hosts srv) \<Longrightarrow> ipa (remote rq) = Inr a \<Longrightarrow> isp a \<Longrightarrow>
   check_remote_and_host_ip ipa isp srv rq hdl s = hdl rq s"
  by (simp add: check_remote_and_host_ip_def)



lemma ipv4_examples:
  "ipv4_address (Some ''192.168.1.20'') = Inr [192, 168, 1, 20]"
  "ipv4_address (Some ''8.8.8.8'') = Inr [8, 8, 8, 8]"
  "ipv4_address None = Inl ValueError"
  "ipv4_is_private [192, 168, 1, 20]"
  "\<not> ipv4_is_private [8, 8, 8, 8]"
  by (simp_all add: ipv4_address_def parse_octet_def isDigit_def digitVal_def
        ipv4_is_private_def)



subsection \<open>The command routes\<close>

lemma undeclared_operations:
  "handler_member h ''on_keydown'' = None"
  "handler_member h ''on_keyup'' = None"
  "handler_member h ''on_keypress'' = None"
  "server_member srv ''roku_usn'' = JUndefined"
  by (simp_all add: handler_member_def server_member_def)

text \<open>
  C8 (the code departs from the claim).  The key handlers call \<^verbatim>\<open>on_keydown\<close>,
  \<^verbatim>\<open>on_keyup\<close> and \<^verbatim>\<open>on_keypress\<close>, which the handler class does not declare (it declares
  \<^verbatim>\<open>onKeydown\<close>, \<^verbatim>\<open>onKeyup\<close>, \<^verbatim>\<open>onKeypress\<close>): the call raises and no operation of the
  configured handler runs, for every server, request and handler.  \<^verbatim>\<open>launch\<close> is declared
  and is called once, but with \<^verbatim>\<open>this.roku_usn\<close>, which nothing assigns (the constructor
  stores \<^verbatim>\<open>rokuUsn\<close>), in place of the usn.
\<close>

theorem key_commands_not_forwarded:
  "snd (roku_keydown_handler srv rq s) = s \<and>
   snd (roku_keyup_handler srv rq s) = s \<and>
   snd (roku_keypress_handler srv rq s) = s \<and>
   app_handle ipv4_address ipv4_is_private roku (post ''/keydown/Home'') [] =
     (Inl TypeError, []) \<and>
   app_handle ipv4_address ipv4_is_private roku (post ''/keyup/Home'') [] =
     (Inl TypeError, []) \<and>
   app_handle ipv4_address ipv4_is_private roku (post ''/keypress/Home'') [] =
     (Inl TypeError, []) \<and>
   app_handle ipv4_address ipv4_is_private roku (post ''/launch/12'') [] =
     (Inr (Response [] []), [Launch JUndefined (JString ''12'')]) \<and>
   rokuUsn roku = ''ABC123''"
proof -
  have g: "check_remote_and_host_ip ipv4_address ipv4_is_private roku (post p) hdl [] =
           hdl (post p) []" for p hdl
    by (rule guard_pass [of _ _ _ "[192, 168, 1, 20]"])
       (simp_all add: post_def roku_def allowed_hosts_ctor ipv4_examples ipv4_is_private_def)
  have r: "resolve (setup_app roku) (post ''/keydown/Home'') False (post ''/keydown/Home'') [] =
             (Inl TypeError, [])"
          "resolve (setup_app roku) (post ''/keyup/Home'') False (post ''/keyup/Home'') [] =
             (Inl TypeError, [])"
          "resolve (setup_app roku) (post ''/keypress/Home'') False (post ''/keypress/Home'') [] =
             (Inl TypeError, [])"
    by (simp_all add: setup_app_def post_def startsWith_def roku_keydown_handler_def
          roku_keyup_handler_def roku_keypress_handler_def call_handler_def
          undeclared_operations)
  have l: "resolve (setup_app roku) (post ''/launch/12'') False (post ''/launch/12'') [] =
             (Inr (Response [] []), [Launch JUndefined (JString ''12'')])"
    by (simp add: setup_app_def post_def startsWith_def roku_launch_handler_def
          call_handler_def handler_member_def undeclared_operations roku_def
          EmulatedRokuServer_def recording_handler_def Let_def)
  have k: "snd (roku_keydown_handler srv rq s) = s" "snd (roku_keyup_handler srv rq s) = s"
    "snd (roku_keypress_handler srv rq s) = s"
    by (simp_all add: roku_keydown_handler_def roku_keyup_handler_def
          roku_keypress_handler_def call_handler_def undeclared_operations
          split: option.splits)
  have u: "rokuUsn roku = ''ABC123''"
    by (simp add: roku_def EmulatedRokuServer_def Let_def)
  show ?thesis
    unfolding app_handle_def g r l using k u by simp
qed


subsection \<open>Further properties\<close>

text \<open>
  X1.  The guard runs before route resolution matters: a request whose \<^verbatim>\<open>Host\<close> header is
  not allowed is answered with \<open>HTTPForbidden\<close> whatever its method and path are, and no
  handler runs.
\<close>

theorem guard_before_dispatch:
  "host rq \<notin> set (allowed_hosts srv) \<Longrightarrow>
   app_handle ipa isp srv rq s = (Inl HTTPForbidden, s)"
  by (simp add: app_handle_def guard_host)

theorem guard_before_dispatch_witness:
  "app_handle ipv4_address ipv4_is_private roku
     ((post ''/launch/12'')\<lparr>host := ''example.com''\<rparr>) [] = (Inl HTTPForbidden, []) \<and>
   app_handle ipv4_address ipv4_is_private roku
     ((post ''/no/such/path'')\<lparr>host := ''example.com''\<rparr>) [] = (Inl HTTPForbidden, [])"
proof -
  have "host ((post p)\<lparr>host := ''example.com''\<rparr>) \<notin> set (allowed_hosts roku)" for p
    by (simp add: roku_def allowed_hosts_ctor)
  from guard_before_dispatch [OF this, of ipv4_address ipv4_is_private]
  show ?thesis by simp
qed

text \<open>
  X2.  When the socket starts listening, the protocol is connected, one NOTIFY goes to the
  multicast group at once, and exactly one repeating timer is armed, whose handle the
  protocol keeps; each tick of that timer sends the same announcement again.
\<close>

theorem listening_announces:
  assumes "armed_ok w" and "running (dgramSocket (proto w))"
  shows "fst (connectionMade w) = None \<and>
         connected (proto (snd (connectionMade w))) \<and>
         transmitted (snd (connectionMade w)) =
           transmitted w @ [\<lparr>dg_data = notifyBroadcast (proto w), dg_port = MULTICAST_PORT,
                             dg_address = MULTICAST_GROUP\<rparr>] \<and>
         intervals (snd (connectionMade w)) = [fresh w] \<and>
         notifyInterval (proto (snd (connectionMade w))) = Some (fresh w) \<and>
         transmitted (snd (step (Tick (fresh w)) (snd (connectionMade w)))) =
           transmitted (snd (connectionMade w)) @
             [\<lparr>dg_data = notifyBroadcast (proto w), dg_port = MULTICAST_PORT,
               dg_address = MULTICAST_GROUP\<rparr>]"
  using assms
  by (auto simp: armed_ok_def removeAll_only connectionMade_def multicastNotify_def
        with_socket_def socket_send_def setInterval_def clearInterval_def transmitted_def
        Let_def split: option.splits)

theorem listening_announces_witness:
  "transmitted (snd (connectionMade device)) =
     [\<lparr>dg_data = notifyBroadcast (proto device), dg_port = 1900,
       dg_address = ''239.255.255.250''\<rparr>] \<and>
   intervals (snd (connectionMade device)) = [0] \<and>
   length (transmitted (snd (step (Tick 0) (snd (connectionMade device))))) = 2"
proof -
  have a: "armed_ok device" by (simp add: device_def armed_ok_new)
  have b: "running (dgramSocket (proto device))" by (simp add: run_defs)
  have c: "transmitted device = []" "fresh device = 0" by (simp_all add: run_defs)
  from listening_announces [OF a b] c
  show ?thesis by (auto simp: MULTICAST_PORT_def MULTICAST_GROUP_def)
qed

text \<open>
  X3.  A reply timer that fires while the protocol is connected and its socket open sends
  exactly one datagram, the precomputed discovery response, to the address and port of
  the requester.
\<close>

theorem reply_goes_to_requester:
  assumes "connected (proto w)" and "running (dgramSocket (proto w))"
    and "k < length (timeouts w)"
  shows "fst (step (Fire k) w) = None \<and>
         transmitted (snd (step (Fire k) w)) =
           transmitted w @ [\<lparr>dg_data = ssdpResponse (proto w),
                             dg_port = port (snd (timeouts w ! k)),
                             dg_address = address (snd (timeouts w ! k))\<rparr>] \<and>
         timeouts (snd (step (Fire k) w)) = remove_nth k (timeouts w)"
  using assms
  by (simp add: reply_def with_socket_def socket_send_def transmitted_def)

theorem reply_goes_to_requester_witness:
  "transmitted (run [Listening, Message (msearch [''ST: ssdp:all'']) requester (1/2), Fire 0]
     device) =
     [\<lparr>dg_data = notifyBroadcast (proto device), dg_port = 1900,
       dg_address = ''239.255.255.250''\<rparr>,
      \<lparr>dg_data = ssdpResponse (proto device), dg_port = 50000,
       dg_address = ''192.168.1.20''\<rparr>]"
proof -
  let ?w = "run [Listening, Message (msearch [''ST: ssdp:all'']) requester (1/2)] device"
  have m: "trim (msearch [''ST: ssdp:all'']) = msearch [''ST: ssdp:all'']"
    "is_discovery_request (msearch [''ST: ssdp:all''])"
    by (simp_all add: text_defs)
  have a: "connected (proto ?w)" "running (dgramSocket (proto ?w))"
    "timeouts ?w = [(reply_delay (msearch [''ST: ssdp:all'']) (1/2), requester)]"
    "transmitted ?w = [\<lparr>dg_data = notifyBroadcast (proto device), dg_port = 1900,
       dg_address = ''239.255.255.250''\<rparr>]"
    "ssdpResponse (proto ?w) = ssdpResponse (proto device)"
    by (simp_all add: run_defs m MULTICAST_PORT_def MULTICAST_GROUP_def)
  have "run [Listening, Message (msearch [''ST: ssdp:all'']) requester (1/2), Fire 0] device =
        snd (step (Fire 0) ?w)"
    by simp
  with reply_goes_to_requester [of ?w 0] a
  show ?thesis by (simp add: requester_def)
qed

end
